theory Spec2Isabelle
  imports Main "HOL-Library.Word"
begin

section \<open>JavaScript values and strings\<close>

text \<open>
  A JavaScript string is a sequence of UTF-16 code units; \<open>length\<close>, \<open>charAt\<close> and
  \<open>substr\<close> count code units. The message literals of \<open>greeting.js\<close> are Korean, so
  they are written below as lists of code units.
\<close>

type_synonym jschar = "16 word"
type_synonym jsstring = "jschar list"

text \<open>An ASCII literal as a JavaScript string.\<close>

definition ascii :: "string \<Rightarrow> jsstring" where
  "ascii s = map (\<lambda>c. of_nat (of_char c)) s"

text \<open>
  The values a profile field, a constructor argument or a step result can hold. Numbers
  are only tested for truthiness and interpolated into messages by this code, so the
  integers and \<open>NaN\<close> stand for them.
\<close>

datatype jsval = Undefined | Null | Bool bool | Num int | NaN | Str jsstring

text \<open>ToBoolean: \<open>undefined\<close>, \<open>null\<close>, \<open>false\<close>, \<open>0\<close>, \<open>NaN\<close> and \<open>''\<close> are falsy.\<close>

fun truthy :: "jsval \<Rightarrow> bool" where
  "truthy Undefined = False"
| "truthy Null = False"
| "truthy (Bool b) = b"
| "truthy (Num n) = (n \<noteq> 0)"
| "truthy NaN = False"
| "truthy (Str s) = (s \<noteq> [])"

text \<open>The operator \<open>a || b\<close>.\<close>

definition js_or :: "jsval \<Rightarrow> jsval \<Rightarrow> jsval" where
  "js_or a b = (if truthy a then a else b)"

text \<open>
  What the JavaScript runtime supplies and this repository does not contain: the Unicode
  upper-case mapping beyond ASCII, and the printing of numbers outside the range of the
  integers that a Number holds exactly.
\<close>

record runtime =
  toUpperCase_table :: "jsstring \<Rightarrow> jsstring"
  numberToString_table :: "int \<Rightarrow> jsstring"

definition ascii_upper :: "jschar \<Rightarrow> jschar" where
  "ascii_upper c = (if 0x61 \<le> c \<and> c \<le> 0x7A then c - 0x20 else c)"

text \<open>
  \<open>String.prototype.toUpperCase\<close>: on a string of ASCII code units only \<open>a\<close> to \<open>z\<close>
  change; any other string is looked up in the runtime's table.
\<close>

definition toUpperCase :: "runtime \<Rightarrow> jsstring \<Rightarrow> jsstring" where
  "toUpperCase rt s =
     (if list_all (\<lambda>c. c < 0x80) s then map ascii_upper s else toUpperCase_table rt s)"

text \<open>\<open>s.charAt(i)\<close> is the empty string when \<open>i\<close> is out of range.\<close>

definition charAt :: "jsstring \<Rightarrow> nat \<Rightarrow> jsstring" where
  "charAt s i = (if i < length s then [s ! i] else [])"

text \<open>\<open>s.substr(i)\<close> for a non-negative start.\<close>

definition substr :: "jsstring \<Rightarrow> nat \<Rightarrow> jsstring" where
  "substr s i = drop i s"

text \<open>\<open>String.prototype.trim\<close> strips WhiteSpace and LineTerminator code units at both ends.\<close>

definition isWhiteSpace :: "jschar \<Rightarrow> bool" where
  "isWhiteSpace c =
     (c \<in> set [0x9, 0xA, 0xB, 0xC, 0xD, 0x20, 0xA0, 0x1680, 0x2028, 0x2029, 0x202F, 0x205F,
                 0x3000, 0xFEFF]
      \<or> (0x2000 \<le> c \<and> c \<le> 0x200A))"

definition trim :: "jsstring \<Rightarrow> jsstring" where
  "trim s = rev (dropWhile isWhiteSpace (rev (dropWhile isWhiteSpace s)))"

text \<open>Decimal digits of a natural number.\<close>

fun digits :: "nat \<Rightarrow> jsstring" where
  "digits n = (if n < 10 then [of_nat (48 + n)]
               else digits (n div 10) @ [of_nat (48 + n mod 10)])"

declare digits.simps [simp del]

text \<open>
  \<open>Number::toString\<close>: an integer of magnitude up to \<open>2^53\<close> is a Number exactly and
  prints in plain decimal; beyond that a Number prints with the shortest digits that
  read back as the same value, or with an exponent, which is left to the runtime.
\<close>

definition numberToString :: "runtime \<Rightarrow> int \<Rightarrow> jsstring" where
  "numberToString rt n =
     (if \<bar>n\<bar> \<le> 2 ^ 53
      then (if n < 0 then ascii ''-'' @ digits (nat (- n)) else digits (nat n))
      else numberToString_table rt n)"

text \<open>ToString, as a template literal applies it to an interpolated value.\<close>

fun toString :: "runtime \<Rightarrow> jsval \<Rightarrow> jsstring" where
  "toString rt Undefined = ascii ''undefined''"
| "toString rt Null = ascii ''null''"
| "toString rt (Bool b) = (if b then ascii ''true'' else ascii ''false'')"
| "toString rt (Num n) = numberToString rt n"
| "toString rt NaN = ascii ''NaN''"
| "toString rt (Str s) = s"

section \<open>userProfile.js\<close>

record profile =
  name :: jsval
  city :: jsval
  phone :: jsval

text \<open>
  The constructor \<open>UserProfile(name, city, phone)\<close>; an omitted argument is \<open>undefined\<close>.
\<close>

definition UserProfile :: "jsval \<Rightarrow> jsval \<Rightarrow> jsval \<Rightarrow> profile" where
  "UserProfile n c p =
     \<lparr> name = js_or n Undefined, city = js_or c Undefined, phone = js_or p Undefined \<rparr>"

section \<open>greeting.js\<close>

definition NAME_LENGTH_MIN :: nat where
  "NAME_LENGTH_MIN = 2"

datatype prompt_id = NAME_PROMPT | CITY_PROMPT | PHONE_PROMPT

datatype js_error = TypeError

text \<open>
  The conversation context of a turn: the value behind \<open>userProfileAccessor\<close>
  (\<open>None\<close> is \<open>undefined\<close>) and the activities sent to the user so far.
\<close>

record turn_context =
  store :: "profile option"
  sent :: "jsstring list"

text \<open>
  What a waterfall step hands back to the dialog framework: \<open>step.prompt(id, text)\<close>,
  \<open>step.next(result)\<close> (\<open>step.next()\<close> passes \<open>undefined\<close>) or \<open>step.endDialog()\<close>.
\<close>

datatype turn_result = Prompt prompt_id jsstring | Next jsval | EndDialog

type_synonym 'a io = "js_error + ('a \<times> turn_context)"

definition sendActivity :: "jsstring \<Rightarrow> turn_context \<Rightarrow> turn_context" where
  "sendActivity text c = c\<lparr>sent := sent c @ [text]\<rparr>"

subsection \<open>Message texts\<close>

definition name_question :: jsstring where
  "name_question = [0xC774, 0xB984, 0xC774, 0x20, 0xBB50, 0xC5D0, 0xC694, 0x3F, 0x3F]"

definition city_question :: "runtime \<Rightarrow> jsval \<Rightarrow> jsstring" where
  "city_question rt n =
     [0xC548, 0xB155, 0xD558, 0xC138, 0xC694, 0x2E, 0x20] @ toString rt n
     @ [0x21, 0x20, 0xC5B4, 0xB514, 0x20, 0xC0B4, 0xC544, 0xC694, 0x3F, 0x20]"

definition phone_question :: jsstring where
  "phone_question = [0xBC88, 0xD638, 0xAC00, 0x20, 0xBB50, 0xC5D0, 0xC694, 0x3F, 0x3F]"

definition name_too_short :: "runtime \<Rightarrow> jsstring" where
  "name_too_short rt =
     [0xC774, 0xB984, 0xC774, 0x20, 0xB108, 0xBB34, 0x20, 0xC9E7, 0xC740, 0xB370, 0xC694,
      0x3F, 0x20, 0x20]
     @ toString rt (Num (int NAME_LENGTH_MIN))
     @ [0xC790, 0x20, 0xC774, 0xC0C1, 0x20, 0xB123, 0xC5B4, 0xC8FC, 0xC138, 0xC694, 0x2E]"

definition greeting_text :: "runtime \<Rightarrow> profile \<Rightarrow> jsstring" where
  "greeting_text rt up =
     [0xC548, 0xB155, 0x2E, 0x20] @ toString rt (name up) @ [0x2C, 0x20]
     @ toString rt (city up)
     @ [0xC0AC, 0xB294, 0xAD70, 0xC694, 0x2E, 0x20, 0xB098, 0xB3C4, 0x20, 0xAC70, 0xAE30,
        0x20, 0xC0AC, 0xB294, 0xB370, 0x21, 0x20, 0xC804, 0xD654, 0xD574, 0xB3C4, 0x20,
        0xB418, 0xC8E0, 0x3F, 0x20]
     @ toString rt (phone up)"

subsection \<open>Steps and validators\<close>

text \<open>
  The expression \<open>x.charAt(0).toUpperCase() + x.substr(1)\<close>; a value that is not a
  string has no \<open>charAt\<close>.
\<close>

definition capitalized :: "runtime \<Rightarrow> jsval \<Rightarrow> js_error + jsstring" where
  "capitalized rt x =
     (case x of Str s \<Rightarrow> Inr (toUpperCase rt (charAt s 0) @ substr s 1)
      | _ \<Rightarrow> Inl TypeError)"

text \<open>
  \<open>options\<close> is \<open>step.options.userProfile\<close> where \<open>step.options\<close> and that field are
  both truthy, and \<open>None\<close> otherwise.
\<close>

definition initializeStateStep :: "profile option \<Rightarrow> turn_context \<Rightarrow> turn_result io" where
  "initializeStateStep options c =
     (case store c of
        None \<Rightarrow>
          (case options of
             Some seed \<Rightarrow> Inr (Next Undefined, c\<lparr>store := Some seed\<rparr>)
           | None \<Rightarrow>
               Inr (Next Undefined,
                    c\<lparr>store := Some (UserProfile Undefined Undefined Undefined)\<rparr>))
      | Some up \<Rightarrow> Inr (Next Undefined, c))"

text \<open>Reading a property of \<open>undefined\<close> throws.\<close>

definition greetUser :: "runtime \<Rightarrow> turn_context \<Rightarrow> turn_result io" where
  "greetUser rt c =
     (case store c of
        None \<Rightarrow> Inl TypeError
      | Some up \<Rightarrow> Inr (EndDialog, sendActivity (greeting_text rt up) c))"

definition promptForNameStep :: "runtime \<Rightarrow> turn_context \<Rightarrow> turn_result io" where
  "promptForNameStep rt c =
     (case store c of
        None \<Rightarrow> Inl TypeError
      | Some up \<Rightarrow>
          if name up \<noteq> Undefined \<and> city up \<noteq> Undefined \<and> phone up \<noteq> Undefined
          then greetUser rt c
          else if \<not> truthy (name up) then Inr (Prompt NAME_PROMPT name_question, c)
          else Inr (Next Undefined, c))"

definition promptForCityStep :: "runtime \<Rightarrow> jsval \<Rightarrow> turn_context \<Rightarrow> turn_result io" where
  "promptForCityStep rt result c =
     (case store c of
        None \<Rightarrow> Inl TypeError
      | Some up \<Rightarrow>
          (case (if name up = Undefined \<and> truthy result
                 then (case capitalized rt result of
                         Inl e \<Rightarrow> Inl e
                       | Inr s \<Rightarrow> Inr (up\<lparr>name := Str s\<rparr>))
                 else Inr up) of
             Inl e \<Rightarrow> Inl e
           | Inr up' \<Rightarrow>
               if \<not> truthy (city up')
               then Inr (Prompt CITY_PROMPT (city_question rt (name up')),
                         c\<lparr>store := Some up'\<rparr>)
               else Inr (Next Undefined, c\<lparr>store := Some up'\<rparr>)))"

definition promptForPhoneStep :: "runtime \<Rightarrow> jsval \<Rightarrow> turn_context \<Rightarrow> turn_result io" where
  "promptForPhoneStep rt result c =
     (case store c of
        None \<Rightarrow> Inl TypeError
      | Some up \<Rightarrow>
          (case (if city up = Undefined \<and> truthy result
                 then (case capitalized rt result of
                         Inl e \<Rightarrow> Inl e
                       | Inr s \<Rightarrow> Inr (up\<lparr>city := Str s\<rparr>))
                 else Inr up) of
             Inl e \<Rightarrow> Inl e
           | Inr up' \<Rightarrow>
               if \<not> truthy (phone up')
               then Inr (Prompt PHONE_PROMPT phone_question, c\<lparr>store := Some up'\<rparr>)
               else Inr (Next Undefined, c\<lparr>store := Some up'\<rparr>)))"

definition displayGreetingStep :: "runtime \<Rightarrow> jsval \<Rightarrow> turn_context \<Rightarrow> turn_result io" where
  "displayGreetingStep rt result c =
     (case store c of
        None \<Rightarrow> Inl TypeError
      | Some up \<Rightarrow>
          (case (if phone up = Undefined \<and> truthy result
                 then (case capitalized rt result of
                         Inl e \<Rightarrow> Inl e
                       | Inr s \<Rightarrow> Inr (up\<lparr>phone := Str s\<rparr>))
                 else Inr up) of
             Inl e \<Rightarrow> Inl e
           | Inr up' \<Rightarrow> greetUser rt (c\<lparr>store := Some up'\<rparr>)))"

text \<open>
  The validators receive \<open>validatorContext.recognized.value\<close>: the text of the reply, or
  \<open>undefined\<close> when none was recognised. A value that is truthy and not a string has no
  \<open>trim\<close>.
\<close>

definition validateName :: "runtime \<Rightarrow> jsval \<Rightarrow> turn_context \<Rightarrow> bool io" where
  "validateName rt v c =
     (case js_or v (Str []) of
        Str s \<Rightarrow>
          if length (trim s) \<ge> NAME_LENGTH_MIN then Inr (True, c)
          else Inr (False, sendActivity (name_too_short rt) c)
      | _ \<Rightarrow> Inl TypeError)"

definition validateCity :: "jsval \<Rightarrow> turn_context \<Rightarrow> bool io" where
  "validateCity v c = Inr (True, c)"

definition validatePhone :: "jsval \<Rightarrow> turn_context \<Rightarrow> bool io" where
  "validatePhone v c = Inr (True, c)"

subsection \<open>The dialog framework\<close>

text \<open>
  Modelled from the spec: the framework that runs the steps (\<open>WaterfallDialog\<close> and
  \<open>TextPrompt\<close> of the library \<open>botbuilder-dialogs\<close>) is not in this repository. As the
  spec's sections 4.1 and 6 and its glossary describe it: the steps run in the order of
  their registration; \<open>next\<close> runs the following step with the value passed as its
  \<open>result\<close>; a prompt sends its question and suspends the flow until the user replies;
  the reply goes to the validator registered for the prompt, which either fails,
  leaving the prompt active with whatever feedback the validator sent, or succeeds, so
  that the following step runs with the reply as its \<open>result\<close>; \<open>endDialog\<close> ends the
  flow, as does running out of steps.
\<close>

datatype dialog_status = Waiting prompt_id nat | Ended

type_synonym step = "jsval \<Rightarrow> turn_context \<Rightarrow> turn_result io"

text \<open>The steps in the order the constructor of \<open>Greeting\<close> registers them.\<close>

definition waterfall_steps :: "runtime \<Rightarrow> profile option \<Rightarrow> step list" where
  "waterfall_steps rt options =
     [\<lambda>result. initializeStateStep options,
      \<lambda>result. promptForNameStep rt,
      promptForCityStep rt,
      promptForPhoneStep rt,
      displayGreetingStep rt]"

text \<open>The validator the constructor registers with each prompt.\<close>

fun validator :: "runtime \<Rightarrow> prompt_id \<Rightarrow> jsval \<Rightarrow> turn_context \<Rightarrow> bool io" where
  "validator rt NAME_PROMPT = validateName rt"
| "validator rt CITY_PROMPT = validateCity"
| "validator rt PHONE_PROMPT = validatePhone"

text \<open>
  Modelled from the spec: the waterfall of \<open>WaterfallDialog\<close>. \<open>runSteps fs i result c\<close>
  runs the steps \<open>fs\<close>, of which the first has index \<open>i\<close>, until one of them prompts
  or ends the dialog; a prompt sends its question and waits, to resume with the step
  after it.
\<close>

fun runSteps :: "step list \<Rightarrow> nat \<Rightarrow> jsval \<Rightarrow> turn_context \<Rightarrow> dialog_status io" where
  "runSteps [] i result c = Inr (Ended, c)"
| "runSteps (f # fs) i result c =
     (case f result c of
        Inl e \<Rightarrow> Inl e
      | Inr (Next r, c') \<Rightarrow> runSteps fs (Suc i) r c'
      | Inr (Prompt pid question, c') \<Rightarrow> Inr (Waiting pid (Suc i), sendActivity question c')
      | Inr (EndDialog, c') \<Rightarrow> Inr (Ended, c'))"

text \<open>Modelled from the spec: starting the flow runs the steps from the first.\<close>

definition beginDialog :: "runtime \<Rightarrow> profile option \<Rightarrow> turn_context \<Rightarrow> dialog_status io" where
  "beginDialog rt options c = runSteps (waterfall_steps rt options) 0 Undefined c"

text \<open>
  Modelled from the spec: the turn of \<open>TextPrompt\<close> on a reply. \<open>reply\<close> is the recognised
  value. A reply the validator refuses leaves the flow waiting at the same prompt, with
  the validator's feedback sent; one it accepts is the \<open>result\<close> of the step that follows.
\<close>

definition continueDialog ::
  "runtime \<Rightarrow> profile option \<Rightarrow> dialog_status \<Rightarrow> jsval \<Rightarrow> turn_context \<Rightarrow> dialog_status io"
where
  "continueDialog rt options st reply c =
     (case st of
        Ended \<Rightarrow> Inr (Ended, c)
      | Waiting pid k \<Rightarrow>
          (case validator rt pid reply c of
             Inl e \<Rightarrow> Inl e
           | Inr (ok, c') \<Rightarrow>
               if ok then runSteps (drop k (waterfall_steps rt options)) k reply c'
               else Inr (Waiting pid k, c')))"

text \<open>
  Modelled from the spec: a whole conversation, in which the flow is started and then
  fed the replies in turn.
\<close>

fun replies :: "runtime \<Rightarrow> profile option \<Rightarrow> jsval list \<Rightarrow> dialog_status io \<Rightarrow> dialog_status io"
where
  "replies rt options [] r = r"
| "replies rt options (x # xs) r =
     (case r of
        Inl e \<Rightarrow> Inl e
      | Inr (st, c) \<Rightarrow> replies rt options xs (continueDialog rt options st x c))"

definition conversation ::
  "runtime \<Rightarrow> profile option \<Rightarrow> jsval list \<Rightarrow> turn_context \<Rightarrow> dialog_status io"
where
  "conversation rt options xs c = replies rt options xs (beginDialog rt options c)"

text \<open>\<open>s.includes(sub)\<close>: \<open>sub\<close> occurs in \<open>s\<close>.\<close>

fun includes_str :: "jsstring \<Rightarrow> jsstring \<Rightarrow> bool" where
  "includes_str [] sub = (sub = [])"
| "includes_str (x # xs) sub = (take (length sub) (x # xs) = sub \<or> includes_str xs sub)"

text \<open>
  A runtime for the worked examples below; they use ASCII text and small numbers, on
  which the tables are not consulted.
\<close>

definition example_runtime :: runtime where
  "example_runtime = \<lparr> toUpperCase_table = id, numberToString_table = (\<lambda>n. []) \<rparr>"

section \<open>publish.js\<close>

record response =
  statusCode :: int

text \<open>What \<open>callback\<close> is called with.\<close>

datatype 'e callback_arg = null | Resp response | Err 'e

text \<open>The files on disk and the calls of \<open>callback\<close> made so far.\<close>

record 'e world =
  files :: "string set"
  calls :: "'e callback_arg list"

text \<open>The options of \<open>request.put\<close>.\<close>

record auth_options =
  username :: string
  password :: string
  sendImmediately :: bool

record put_options =
  auth :: auth_options
  headers :: "(string \<times> string) list"

definition kuduApi :: string where
  "kuduApi = ''https://mycheesebot.scm.azurewebsites.net/api/zip/site/wwwroot''"

definition userName :: string where
  "userName = ''$mycheesebot''"

text \<open>
  The request \<open>uploadZip\<close> issues: method, URL and options. The module's \<open>password\<close>
  literal is a parameter here.
\<close>

definition uploadZip_request :: "string \<Rightarrow> string \<times> string \<times> put_options" where
  "uploadZip_request pw =
     (''PUT'', kuduApi,
      \<lparr> auth = \<lparr> username = userName, password = pw, sendImmediately = True \<rparr>,
        headers = [(''Content-Type'', ''applicaton/zip'')] \<rparr>)"

text \<open>The two events of the request that \<open>uploadZip\<close> listens to.\<close>

datatype 'e request_event = on_response response | on_error 'e

text \<open>
  What \<open>fs.unlink\<close> does when it is called with a path and no callback depends on the
  Node.js release that runs the script, which nothing in the repository fixes. Before
  version 10 the callback is optional: the file is removed and a deprecation warning is
  printed. From version 10 on the callback is required: the call throws a TypeError
  before anything is removed.
\<close>

datatype node_fs = callback_optional | callback_required

definition unlink_no_callback :: "node_fs \<Rightarrow> string \<Rightarrow> string set \<Rightarrow> js_error + string set"
where
  "unlink_no_callback node path fs =
     (case node of
        callback_optional \<Rightarrow> Inr (fs - {path})
      | callback_required \<Rightarrow> Inl TypeError)"

text \<open>
  The handlers of \<open>uploadZip\<close>; \<open>zipPath\<close> is the module's variable of that name. The
  result is what the handler threw, if anything, and the files and calls after it. An
  exception of \<open>fs.unlink(zipPath)\<close> leaves the handler before \<open>callback(null)\<close>.
\<close>

definition uploadZip ::
  "node_fs \<Rightarrow> string \<Rightarrow> 'e request_event \<Rightarrow> 'e world \<Rightarrow> js_error option \<times> 'e world"
where
  "uploadZip node zipPath ev w =
     (case ev of
        on_response resp \<Rightarrow>
          if statusCode resp \<ge> 200 \<and> statusCode resp < 300
          then (case unlink_no_callback node zipPath (files w) of
                  Inl e \<Rightarrow> (Some e, w)
                | Inr fs \<Rightarrow> (None, w\<lparr>files := fs, calls := calls w @ [null]\<rparr>))
          else if statusCode resp \<ge> 400 then (None, w\<lparr>calls := calls w @ [Resp resp]\<rparr>)
          else (None, w)
      | on_error err \<Rightarrow> (None, w\<lparr>calls := calls w @ [Err err]\<rparr>))"

section \<open>Notions of the specification\<close>

text \<open>
  Following the spec's words: to capitalize is to uppercase the first character and to
  leave the remainder unchanged.
\<close>

definition first_upper :: "runtime \<Rightarrow> jsstring \<Rightarrow> jsstring" where
  "first_upper rt s = (case s of [] \<Rightarrow> [] | x # xs \<Rightarrow> toUpperCase rt [x] @ xs)"

text \<open>
  Following the spec's words: a field that is set (not \<open>undefined\<close>) in \<open>up\<close> has the
  same value in \<open>up'\<close>.
\<close>

definition fields_kept :: "profile \<Rightarrow> profile \<Rightarrow> bool" where
  "fields_kept up up' \<longleftrightarrow>
     (name up \<noteq> Undefined \<longrightarrow> name up' = name up)
     \<and> (city up \<noteq> Undefined \<longrightarrow> city up' = city up)
     \<and> (phone up \<noteq> Undefined \<longrightarrow> phone up' = phone up)"

section \<open>Properties of the profile record\<close>

lemma falsy_values:
  "\<not> truthy v \<longleftrightarrow> v \<in> {Undefined, Null, Bool False, Num 0, NaN, Str []}"
  by (cases v) auto

text \<open>
  Claim C10. Whatever the three arguments of the \<open>UserProfile\<close> constructor are, a field
  whose argument is falsy (omitted or \<open>undefined\<close>, \<open>null\<close>, the empty string, \<open>0\<close>, and
  likewise \<open>false\<close> and \<open>NaN\<close>) is stored as \<open>undefined\<close>, and a field whose argument is
  truthy is stored as that argument, unchanged.
\<close>

theorem UserProfile_falsy_undefined:
  "(\<not> truthy n \<longrightarrow> name (UserProfile n c p) = Undefined)
   \<and> (truthy n \<longrightarrow> name (UserProfile n c p) = n)
   \<and> (\<not> truthy c \<longrightarrow> city (UserProfile n c p) = Undefined)
   \<and> (truthy c \<longrightarrow> city (UserProfile n c p) = c)
   \<and> (\<not> truthy p \<longrightarrow> phone (UserProfile n c p) = Undefined)
   \<and> (truthy p \<longrightarrow> phone (UserProfile n c p) = p)"
  by (simp add: UserProfile_def js_or_def)

theorem UserProfile_falsy_undefined_witness:
  "\<not> truthy (Str []) \<and> \<not> truthy (Num 0) \<and> truthy (Str (ascii ''Seoul''))
   \<and> UserProfile (Str []) (Num 0) (Str (ascii ''Seoul''))
       = \<lparr> name = Undefined, city = Undefined, phone = Str (ascii ''Seoul'') \<rparr>"
  using UserProfile_falsy_undefined [of "Str []" "Num 0" "Str (ascii ''Seoul'')"]
  by (simp add: UserProfile_def js_or_def ascii_def)

section \<open>Properties of the collection flow\<close>

subsection \<open>Auxiliary facts\<close>

lemmas flow_defs =
  conversation_def beginDialog_def continueDialog_def waterfall_steps_def
  initializeStateStep_def promptForNameStep_def promptForCityStep_def promptForPhoneStep_def
  displayGreetingStep_def greetUser_def validateName_def validateCity_def validatePhone_def
  sendActivity_def capitalized_def UserProfile_def js_or_def NAME_LENGTH_MIN_def

lemmas string_defs =
  ascii_def toUpperCase_def ascii_upper_def charAt_def substr_def trim_def isWhiteSpace_def

text \<open>The length-violation message does not depend on the runtime: \<open>2\<close> prints as \<open>2\<close>.\<close>

lemma name_too_short_text:
  "name_too_short rt =
     [0xC774, 0xB984, 0xC774, 0x20, 0xB108, 0xBB34, 0x20, 0xC9E7, 0xC740, 0xB370, 0xC694,
      0x3F, 0x20, 0x20, 0x32, 0xC790, 0x20, 0xC774, 0xC0C1, 0x20, 0xB123, 0xC5B4, 0xC8FC,
      0xC138, 0xC694, 0x2E]"
  by (simp add: name_too_short_def NAME_LENGTH_MIN_def numberToString_def digits.simps)

lemma steps_after_initialize:
  "drop (Suc 0) (waterfall_steps rt options) =
     [\<lambda>result. promptForNameStep rt, promptForCityStep rt, promptForPhoneStep rt,
      displayGreetingStep rt]"
  by (simp add: waterfall_steps_def)

lemma steps_after_name:
  "drop 2 (waterfall_steps rt options) =
     [promptForCityStep rt, promptForPhoneStep rt, displayGreetingStep rt]"
  by (simp add: waterfall_steps_def)

text \<open>The code's capitalizing expression computes what the spec calls capitalizing.\<close>

lemma capitalized_first_upper: "capitalized rt (Str s) = Inr (first_upper rt s)"
  by (cases s)
    (simp_all add: capitalized_def first_upper_def charAt_def substr_def toUpperCase_def)

lemma first_upper_alice: "first_upper rt (ascii ''alice'') = ascii ''Alice''"
  by (simp add: first_upper_def toUpperCase_def ascii_upper_def ascii_def)

subsection \<open>The name prompt\<close>

text \<open>
  Claim C2. For every text \<open>s\<close> given in reply to the name prompt, \<open>validateName\<close>
  succeeds if and only if the trimmed text has at least 2 characters. When it fails (also
  when no text was recognised at all) the flow sends the length-violation message and
  is again waiting at the name prompt, so that the next reply answers the same question;
  when it succeeds, the city step and the steps after it run with the reply as their
  result. (The name prompt is issued by the step of index 1, so it resumes with the step
  of index 2.)
\<close>

theorem validateName_min_length:
  "((\<exists>c'. validateName rt (Str s) c = Inr (True, c')) \<longleftrightarrow> 2 \<le> length (trim s))
   \<and> (length (trim s) < 2 \<longrightarrow>
        validateName rt (Str s) c = Inr (False, sendActivity (name_too_short rt) c)
        \<and> continueDialog rt options (Waiting NAME_PROMPT 2) (Str s) c
            = Inr (Waiting NAME_PROMPT 2, sendActivity (name_too_short rt) c))
   \<and> continueDialog rt options (Waiting NAME_PROMPT 2) Undefined c
        = Inr (Waiting NAME_PROMPT 2, sendActivity (name_too_short rt) c)
   \<and> (2 \<le> length (trim s) \<longrightarrow>
        continueDialog rt options (Waiting NAME_PROMPT 2) (Str s) c
          = runSteps [promptForCityStep rt, promptForPhoneStep rt, displayGreetingStep rt]
              2 (Str s) c)"
proof -
  have v: "validateName rt (Str s) c =
      (if 2 \<le> length (trim s) then Inr (True, c)
       else Inr (False, sendActivity (name_too_short rt) c))"
    by (cases s) (simp_all add: validateName_def js_or_def NAME_LENGTH_MIN_def)
  have u: "validateName rt Undefined c = Inr (False, sendActivity (name_too_short rt) c)"
    by (simp add: validateName_def js_or_def trim_def NAME_LENGTH_MIN_def)
  show ?thesis
    by (auto simp add: v u continueDialog_def steps_after_name)
qed

text \<open>
  The reply \<open>" b "\<close> is one character long once trimmed and is refused; the reply
  \<open>"bob"\<close> is accepted, stored as \<open>"Bob"\<close>, and the city question follows.
\<close>

theorem validateName_min_length_witness:
  "length (trim (ascii '' b '')) < 2
   \<and> continueDialog example_runtime None (Waiting NAME_PROMPT 2) (Str (ascii '' b ''))
        \<lparr> store = Some (UserProfile Undefined Undefined Undefined), sent = [] \<rparr>
      = Inr (Waiting NAME_PROMPT 2,
          \<lparr> store = Some (UserProfile Undefined Undefined Undefined),
            sent = [[0xC774, 0xB984, 0xC774, 0x20, 0xB108, 0xBB34, 0x20, 0xC9E7, 0xC740, 0xB370,
                     0xC694, 0x3F, 0x20, 0x20, 0x32, 0xC790, 0x20, 0xC774, 0xC0C1, 0x20, 0xB123,
                     0xC5B4, 0xC8FC, 0xC138, 0xC694, 0x2E]] \<rparr>)
   \<and> 2 \<le> length (trim (ascii ''bob''))
   \<and> continueDialog example_runtime None (Waiting NAME_PROMPT 2) (Str (ascii ''bob''))
        \<lparr> store = Some (UserProfile Undefined Undefined Undefined), sent = [] \<rparr>
      = Inr (Waiting CITY_PROMPT 3,
          \<lparr> store = Some \<lparr> name = Str (ascii ''Bob''), city = Undefined, phone = Undefined \<rparr>,
            sent = [city_question example_runtime (Str (ascii ''Bob''))] \<rparr>)"
  using validateName_min_length
      [of example_runtime "ascii '' b ''"
          "\<lparr> store = Some (UserProfile Undefined Undefined Undefined), sent = [] \<rparr>" None]
    validateName_min_length
      [of example_runtime "ascii ''bob''"
          "\<lparr> store = Some (UserProfile Undefined Undefined Undefined), sent = [] \<rparr>" None]
  by (simp add: name_too_short_text sendActivity_def promptForCityStep_def capitalized_def
      UserProfile_def js_or_def NAME_LENGTH_MIN_def string_defs)

subsection \<open>A complete profile\<close>

text \<open>
  Claim C3. For every profile whose name, city and phone are all set (not \<open>undefined\<close>),
  the name step sends the summary message and ends the dialog; it issues no prompt. So
  does the flow run from the name step on, and the flow run from its start.
\<close>

theorem complete_profile_greets:
  assumes "store c = Some up"
    and "name up \<noteq> Undefined" and "city up \<noteq> Undefined" and "phone up \<noteq> Undefined"
  shows "promptForNameStep rt c = Inr (EndDialog, sendActivity (greeting_text rt up) c)
     \<and> runSteps (drop 1 (waterfall_steps rt options)) 1 r c
         = Inr (Ended, sendActivity (greeting_text rt up) c)
     \<and> beginDialog rt options c = Inr (Ended, sendActivity (greeting_text rt up) c)"
proof -
  have step2: "promptForNameStep rt c = Inr (EndDialog, sendActivity (greeting_text rt up) c)"
    using assms by (simp add: promptForNameStep_def greetUser_def)
  have from2: "runSteps (drop 1 (waterfall_steps rt options)) 1 r c
         = Inr (Ended, sendActivity (greeting_text rt up) c)"
    using step2 by (simp add: steps_after_initialize)
  have step1: "initializeStateStep options c = Inr (Next Undefined, c)"
    using assms(1) by (simp add: initializeStateStep_def)
  have "beginDialog rt options c = Inr (Ended, sendActivity (greeting_text rt up) c)"
    using step1 step2 by (simp add: beginDialog_def waterfall_steps_def)
  with step2 from2 show ?thesis by simp
qed

theorem complete_profile_greets_witness:
  "runSteps (drop 1 (waterfall_steps example_runtime None)) 1 Undefined
     \<lparr> store = Some \<lparr> name = Str (ascii ''Al''), city = Str (ascii ''Rome''),
                      phone = Str (ascii ''42'') \<rparr>, sent = [] \<rparr>
   = Inr (Ended,
       \<lparr> store = Some \<lparr> name = Str (ascii ''Al''), city = Str (ascii ''Rome''),
                        phone = Str (ascii ''42'') \<rparr>,
         sent = [[0xC548, 0xB155, 0x2E, 0x20, 0x41, 0x6C, 0x2C, 0x20, 0x52, 0x6F, 0x6D, 0x65,
                  0xC0AC, 0xB294, 0xAD70, 0xC694, 0x2E, 0x20, 0xB098, 0xB3C4, 0x20, 0xAC70,
                  0xAE30, 0x20, 0xC0AC, 0xB294, 0xB370, 0x21, 0x20, 0xC804, 0xD654, 0xD574,
                  0xB3C4, 0x20, 0xB418, 0xC8E0, 0x3F, 0x20, 0x34, 0x32]] \<rparr>)"
  using complete_profile_greets
    [of "\<lparr> store = Some \<lparr> name = Str (ascii ''Al''), city = Str (ascii ''Rome''),
                          phone = Str (ascii ''42'') \<rparr>, sent = [] \<rparr>"
        "\<lparr> name = Str (ascii ''Al''), city = Str (ascii ''Rome''), phone = Str (ascii ''42'') \<rparr>"
        example_runtime None Undefined]
  by (simp add: sendActivity_def greeting_text_def ascii_def)

subsection \<open>The whole conversation\<close>

text \<open>
  Claim C1. The flow is started on an empty profile (none stored and none supplied by the
  caller, or a stored profile with no field set) and the replies to the three prompts
  are \<open>"bob"\<close>, \<open>"seoul"\<close> and \<open>"5551234"\<close>. Then the flow ends, the messages sent
  are the three questions followed by the summary, and the summary, which is the
  template filled with \<open>"Bob"\<close>, \<open>"Seoul"\<close> and \<open>"5551234"\<close>, contains each of them.
\<close>

theorem bob_seoul_summary:
  assumes "store c = None \<and> options = None
           \<or> store c = Some (UserProfile Undefined Undefined Undefined)"
  shows "conversation rt options
           [Str (ascii ''bob''), Str (ascii ''seoul''), Str (ascii ''5551234'')] c
         = Inr (Ended,
             \<lparr> store = Some \<lparr> name = Str (ascii ''Bob''), city = Str (ascii ''Seoul''),
                              phone = Str (ascii ''5551234'') \<rparr>,
               sent = sent c @
                 [name_question, city_question rt (Str (ascii ''Bob'')), phone_question,
                  greeting_text rt \<lparr> name = Str (ascii ''Bob''), city = Str (ascii ''Seoul''),
                                     phone = Str (ascii ''5551234'') \<rparr>] \<rparr>)
     \<and> includes_str (greeting_text rt \<lparr> name = Str (ascii ''Bob''), city = Str (ascii ''Seoul''),
                                        phone = Str (ascii ''5551234'') \<rparr>) (ascii ''Bob'')
     \<and> includes_str (greeting_text rt \<lparr> name = Str (ascii ''Bob''), city = Str (ascii ''Seoul''),
                                        phone = Str (ascii ''5551234'') \<rparr>) (ascii ''Seoul'')
     \<and> includes_str (greeting_text rt \<lparr> name = Str (ascii ''Bob''), city = Str (ascii ''Seoul''),
                                        phone = Str (ascii ''5551234'') \<rparr>) (ascii ''5551234'')"
proof -
  have run: "conversation rt options
           [Str (ascii ''bob''), Str (ascii ''seoul''), Str (ascii ''5551234'')] c
         = Inr (Ended,
             \<lparr> store = Some \<lparr> name = Str (ascii ''Bob''), city = Str (ascii ''Seoul''),
                              phone = Str (ascii ''5551234'') \<rparr>,
               sent = sent c @
                 [name_question, city_question rt (Str (ascii ''Bob'')), phone_question,
                  greeting_text rt \<lparr> name = Str (ascii ''Bob''), city = Str (ascii ''Seoul''),
                                     phone = Str (ascii ''5551234'') \<rparr>] \<rparr>)"
    using assms by (auto simp add: flow_defs string_defs)
  have msg: "greeting_text rt \<lparr> name = Str (ascii ''Bob''), city = Str (ascii ''Seoul''),
                                phone = Str (ascii ''5551234'') \<rparr> =
    [0xC548, 0xB155, 0x2E, 0x20, 0x42, 0x6F, 0x62, 0x2C, 0x20, 0x53, 0x65, 0x6F, 0x75, 0x6C,
     0xC0AC, 0xB294, 0xAD70, 0xC694, 0x2E, 0x20, 0xB098, 0xB3C4, 0x20, 0xAC70, 0xAE30, 0x20,
     0xC0AC, 0xB294, 0xB370, 0x21, 0x20, 0xC804, 0xD654, 0xD574, 0xB3C4, 0x20, 0xB418, 0xC8E0,
     0x3F, 0x20, 0x35, 0x35, 0x35, 0x31, 0x32, 0x33, 0x34]"
    by (simp add: greeting_text_def ascii_def)
  have inc:
    "includes_str (greeting_text rt \<lparr> name = Str (ascii ''Bob''), city = Str (ascii ''Seoul''),
                                     phone = Str (ascii ''5551234'') \<rparr>) (ascii ''Bob'')"
    "includes_str (greeting_text rt \<lparr> name = Str (ascii ''Bob''), city = Str (ascii ''Seoul''),
                                     phone = Str (ascii ''5551234'') \<rparr>) (ascii ''Seoul'')"
    "includes_str (greeting_text rt \<lparr> name = Str (ascii ''Bob''), city = Str (ascii ''Seoul''),
                                     phone = Str (ascii ''5551234'') \<rparr>) (ascii ''5551234'')"
    unfolding msg by (simp_all add: ascii_def)
  from run inc show ?thesis by simp
qed

text \<open>The four messages of that conversation, code unit by code unit.\<close>

theorem bob_seoul_summary_witness:
  "conversation example_runtime None
     [Str (ascii ''bob''), Str (ascii ''seoul''), Str (ascii ''5551234'')]
     \<lparr> store = None, sent = [] \<rparr>
   = Inr (Ended,
       \<lparr> store = Some \<lparr> name = Str (ascii ''Bob''), city = Str (ascii ''Seoul''),
                        phone = Str (ascii ''5551234'') \<rparr>,
         sent =
           [[0xC774, 0xB984, 0xC774, 0x20, 0xBB50, 0xC5D0, 0xC694, 0x3F, 0x3F],
            [0xC548, 0xB155, 0xD558, 0xC138, 0xC694, 0x2E, 0x20, 0x42, 0x6F, 0x62, 0x21, 0x20,
             0xC5B4, 0xB514, 0x20, 0xC0B4, 0xC544, 0xC694, 0x3F, 0x20],
            [0xBC88, 0xD638, 0xAC00, 0x20, 0xBB50, 0xC5D0, 0xC694, 0x3F, 0x3F],
            [0xC548, 0xB155, 0x2E, 0x20, 0x42, 0x6F, 0x62, 0x2C, 0x20, 0x53, 0x65, 0x6F, 0x75,
             0x6C, 0xC0AC, 0xB294, 0xAD70, 0xC694, 0x2E, 0x20, 0xB098, 0xB3C4, 0x20, 0xAC70,
             0xAE30, 0x20, 0xC0AC, 0xB294, 0xB370, 0x21, 0x20, 0xC804, 0xD654, 0xD574, 0xB3C4,
             0x20, 0xB418, 0xC8E0, 0x3F, 0x20, 0x35, 0x35, 0x35, 0x31, 0x32, 0x33, 0x34]] \<rparr>)"
  using bob_seoul_summary [of "\<lparr> store = None, sent = [] \<rparr>" None example_runtime]
  by (simp add: name_question_def city_question_def phone_question_def greeting_text_def
      ascii_def)

subsection \<open>Resuming with a name\<close>

text \<open>
  Claim C7, as amended. For every profile whose name is set to a truthy value (a string
  that is not empty) and whose city and phone are not set, whether it is stored already
  or supplied by the caller as the seed, the name step advances without prompting and
  the flow's first message is the city question, at which it waits.
\<close>

theorem named_profile_city_prompt:
  assumes "truthy (name up)" and "city up = Undefined" and "phone up = Undefined"
    and "store c = Some up \<or> store c = None \<and> options = Some up"
  shows "promptForNameStep rt (c\<lparr>store := Some up\<rparr>) = Inr (Next Undefined, c\<lparr>store := Some up\<rparr>)
     \<and> beginDialog rt options c
         = Inr (Waiting CITY_PROMPT 3,
                sendActivity (city_question rt (name up)) (c\<lparr>store := Some up\<rparr>))"
proof -
  have s1: "initializeStateStep options c = Inr (Next Undefined, c\<lparr>store := Some up\<rparr>)"
    using assms(4) by (auto simp add: initializeStateStep_def)
  have s2: "promptForNameStep rt (c\<lparr>store := Some up\<rparr>)
              = Inr (Next Undefined, c\<lparr>store := Some up\<rparr>)"
    using assms(1,2) by (simp add: promptForNameStep_def)
  have s3: "promptForCityStep rt Undefined (c\<lparr>store := Some up\<rparr>)
              = Inr (Prompt CITY_PROMPT (city_question rt (name up)), c\<lparr>store := Some up\<rparr>)"
    using assms(1,2) by (auto simp add: promptForCityStep_def)
  have "beginDialog rt options c
         = Inr (Waiting CITY_PROMPT 3,
                sendActivity (city_question rt (name up)) (c\<lparr>store := Some up\<rparr>))"
    by (simp add: beginDialog_def waterfall_steps_def s1 s2 s3)
  with s2 show ?thesis by simp
qed

theorem named_profile_city_prompt_witness:
  "truthy (Str (ascii ''Al''))
   \<and> beginDialog example_runtime None
        \<lparr> store = Some \<lparr> name = Str (ascii ''Al''), city = Undefined, phone = Undefined \<rparr>,
          sent = [] \<rparr>
      = Inr (Waiting CITY_PROMPT 3,
          \<lparr> store = Some \<lparr> name = Str (ascii ''Al''), city = Undefined, phone = Undefined \<rparr>,
            sent = [[0xC548, 0xB155, 0xD558, 0xC138, 0xC694, 0x2E, 0x20, 0x41, 0x6C, 0x21, 0x20,
                     0xC5B4, 0xB514, 0x20, 0xC0B4, 0xC544, 0xC694, 0x3F, 0x20]] \<rparr>)"
  using named_profile_city_prompt
    [of "\<lparr> name = Str (ascii ''Al''), city = Undefined, phone = Undefined \<rparr>"
        "\<lparr> store = Some \<lparr> name = Str (ascii ''Al''), city = Undefined, phone = Undefined \<rparr>,
           sent = [] \<rparr>" None example_runtime]
  by (simp add: sendActivity_def city_question_def ascii_def)

text \<open>
  The claim as first stated, for every profile whose name is set, fails where the name is
  set to the empty string: the name step tests \<open>!userProfile.name\<close>, the empty string is
  falsy, and the name question is asked.
\<close>

theorem empty_name_is_prompted:
  "name \<lparr> name = Str [], city = Undefined, phone = Undefined \<rparr> \<noteq> Undefined
   \<and> city \<lparr> name = Str [], city = Undefined, phone = Undefined \<rparr> = Undefined
   \<and> phone \<lparr> name = Str [], city = Undefined, phone = Undefined \<rparr> = Undefined
   \<and> promptForNameStep example_runtime
        \<lparr> store = Some \<lparr> name = Str [], city = Undefined, phone = Undefined \<rparr>, sent = [] \<rparr>
      = Inr (Prompt NAME_PROMPT name_question,
          \<lparr> store = Some \<lparr> name = Str [], city = Undefined, phone = Undefined \<rparr>, sent = [] \<rparr>)
   \<and> beginDialog example_runtime None
        \<lparr> store = Some \<lparr> name = Str [], city = Undefined, phone = Undefined \<rparr>, sent = [] \<rparr>
      = Inr (Waiting NAME_PROMPT 2,
          \<lparr> store = Some \<lparr> name = Str [], city = Undefined, phone = Undefined \<rparr>,
            sent = [name_question] \<rparr>)"
  by (simp add: beginDialog_def waterfall_steps_def initializeStateStep_def
      promptForNameStep_def sendActivity_def)

text \<open>
  Reading "not set" as falsy rather than as \<open>undefined\<close> does not save the claim as first
  stated either: with a name and with the empty string as city and phone, all three
  fields are different from \<open>undefined\<close>, and the name step sends the summary at once.
\<close>

lemma empty_city_is_greeted:
  "beginDialog example_runtime None
     \<lparr> store = Some \<lparr> name = Str (ascii ''Al''), city = Str [], phone = Str [] \<rparr>,
       sent = [] \<rparr>
   = Inr (Ended,
       \<lparr> store = Some \<lparr> name = Str (ascii ''Al''), city = Str [], phone = Str [] \<rparr>,
         sent = [greeting_text example_runtime
                   \<lparr> name = Str (ascii ''Al''), city = Str [], phone = Str [] \<rparr>] \<rparr>)"
  by (simp add: beginDialog_def waterfall_steps_def initializeStateStep_def
      promptForNameStep_def greetUser_def sendActivity_def)

subsection \<open>What the steps write\<close>

text \<open>
  Claim C5. Whenever a step stores an answer, that is, when the step's field is not yet
  set and the reply \<open>s\<close> is a string that is not empty, the value written to the name,
  the city or the phone is the raw reply with its first character (the first UTF-16 code
  unit, as \<open>charAt(0)\<close> has it) uppercased and the remainder unchanged. In particular
  \<open>"alice"\<close> is stored as \<open>"Alice"\<close>.
\<close>

theorem stored_answer_first_upper:
  assumes "store c = Some up"
  shows "(name up = Undefined \<and> s \<noteq> [] \<longrightarrow>
            (\<exists>act c'. promptForCityStep rt (Str s) c = Inr (act, c')
               \<and> store c' = Some (up\<lparr>name := Str (first_upper rt s)\<rparr>)))
     \<and> (city up = Undefined \<and> s \<noteq> [] \<longrightarrow>
            (\<exists>act c'. promptForPhoneStep rt (Str s) c = Inr (act, c')
               \<and> store c' = Some (up\<lparr>city := Str (first_upper rt s)\<rparr>)))
     \<and> (phone up = Undefined \<and> s \<noteq> [] \<longrightarrow>
            (\<exists>act c'. displayGreetingStep rt (Str s) c = Inr (act, c')
               \<and> store c' = Some (up\<lparr>phone := Str (first_upper rt s)\<rparr>)))
     \<and> first_upper rt (ascii ''alice'') = ascii ''Alice''"
proof -
  have n: "name up = Undefined \<and> s \<noteq> [] \<longrightarrow>
            (\<exists>act c'. promptForCityStep rt (Str s) c = Inr (act, c')
               \<and> store c' = Some (up\<lparr>name := Str (first_upper rt s)\<rparr>))"
    using assms by (simp add: promptForCityStep_def capitalized_first_upper)
  have ci: "city up = Undefined \<and> s \<noteq> [] \<longrightarrow>
            (\<exists>act c'. promptForPhoneStep rt (Str s) c = Inr (act, c')
               \<and> store c' = Some (up\<lparr>city := Str (first_upper rt s)\<rparr>))"
    using assms by (simp add: promptForPhoneStep_def capitalized_first_upper)
  have ph: "phone up = Undefined \<and> s \<noteq> [] \<longrightarrow>
            (\<exists>act c'. displayGreetingStep rt (Str s) c = Inr (act, c')
               \<and> store c' = Some (up\<lparr>phone := Str (first_upper rt s)\<rparr>))"
    using assms
    by (simp add: displayGreetingStep_def capitalized_first_upper greetUser_def
        sendActivity_def)
  from n ci ph first_upper_alice [of rt] show ?thesis by blast
qed

theorem stored_answer_first_upper_witness:
  "promptForCityStep example_runtime (Str (ascii ''alice''))
     \<lparr> store = Some \<lparr> name = Undefined, city = Undefined, phone = Undefined \<rparr>, sent = [] \<rparr>
   = Inr (Prompt CITY_PROMPT (city_question example_runtime (Str (ascii ''Alice''))),
       \<lparr> store = Some \<lparr> name = Str (ascii ''Alice''), city = Undefined, phone = Undefined \<rparr>,
         sent = [] \<rparr>)
   \<and> first_upper example_runtime (ascii ''alice'') = ascii ''Alice''"
proof -
  have run: "promptForCityStep example_runtime (Str (ascii ''alice''))
     \<lparr> store = Some \<lparr> name = Undefined, city = Undefined, phone = Undefined \<rparr>, sent = [] \<rparr>
   = Inr (Prompt CITY_PROMPT (city_question example_runtime (Str (ascii ''Alice''))),
       \<lparr> store = Some \<lparr> name = Str (ascii ''Alice''), city = Undefined, phone = Undefined \<rparr>,
         sent = [] \<rparr>)"
    by (simp add: promptForCityStep_def capitalized_def string_defs)
  have "store \<lparr> store = Some \<lparr> name = Undefined, city = Undefined, phone = Undefined \<rparr>,
                 sent = [] \<rparr>
        = Some \<lparr> name = Undefined, city = Undefined, phone = Undefined \<rparr>"
    by simp
  from stored_answer_first_upper [OF this, of "ascii ''alice''" example_runtime]
  have "first_upper example_runtime (ascii ''alice'') = ascii ''Alice''"
    by blast
  with run show ?thesis by simp
qed

text \<open>
  Conversely a step changes the profile in no other way: the profile after the city step
  is the one before it, or the one before it with the capitalized reply as its name.
\<close>

lemma promptForCityStep_writes:
  assumes "store c = Some up" and "promptForCityStep rt r c = Inr (act, c')"
  shows "store c' = Some up
     \<or> (\<exists>s. r = Str s \<and> s \<noteq> [] \<and> name up = Undefined
            \<and> store c' = Some (up\<lparr>name := Str (first_upper rt s)\<rparr>))"
proof (cases "name up = Undefined \<and> truthy r")
  case True
  then obtain s where "r = Str s" and "s \<noteq> []"
    using assms by (cases r) (auto simp add: promptForCityStep_def capitalized_def)
  then show ?thesis
    using True assms
    by (auto simp add: promptForCityStep_def capitalized_first_upper split: if_splits)
next
  case False
  then show ?thesis
    using assms by (auto simp add: promptForCityStep_def split: if_splits)
qed

subsection \<open>Fields that are set stay as they are\<close>

lemma initializeStateStep_keeps:
  "store c = Some up \<Longrightarrow> initializeStateStep options c = Inr (Next Undefined, c)"
  by (simp add: initializeStateStep_def)

lemma promptForNameStep_keeps:
  "store c = Some up \<Longrightarrow>
    \<exists>act c'. promptForNameStep rt c = Inr (act, c') \<and> store c' = Some up"
  by (simp add: promptForNameStep_def greetUser_def sendActivity_def)

lemma promptForCityStep_keeps:
  "store c = Some up \<Longrightarrow>
    (\<exists>act c' up'. promptForCityStep rt r c = Inr (act, c') \<and> store c' = Some up'
        \<and> fields_kept up up')
    \<or> (promptForCityStep rt r c = Inl TypeError \<and> truthy r \<and> (\<forall>s. r \<noteq> Str s))"
  by (cases r) (simp_all add: promptForCityStep_def capitalized_def fields_kept_def)

lemma promptForPhoneStep_keeps:
  "store c = Some up \<Longrightarrow>
    (\<exists>act c' up'. promptForPhoneStep rt r c = Inr (act, c') \<and> store c' = Some up'
        \<and> fields_kept up up')
    \<or> (promptForPhoneStep rt r c = Inl TypeError \<and> truthy r \<and> (\<forall>s. r \<noteq> Str s))"
  by (cases r) (simp_all add: promptForPhoneStep_def capitalized_def fields_kept_def)

lemma displayGreetingStep_keeps:
  "store c = Some up \<Longrightarrow>
    (\<exists>act c' up'. displayGreetingStep rt r c = Inr (act, c') \<and> store c' = Some up'
        \<and> fields_kept up up')
    \<or> (displayGreetingStep rt r c = Inl TypeError \<and> truthy r \<and> (\<forall>s. r \<noteq> Str s))"
  by (cases r)
    (simp_all add: displayGreetingStep_def capitalized_def fields_kept_def greetUser_def
      sendActivity_def)

text \<open>
  Claim C6. Let any of the five steps run on a stored profile, with any step result.
  Either the step returns, and then every field of the profile that was set (not
  \<open>undefined\<close>) before the step has the same value after it; or the step throws, which
  happens only on a truthy result that is not a string, before anything is written.
\<close>

theorem steps_keep_set_fields:
  assumes "store c = Some up" and "i < length (waterfall_steps rt options)"
  shows "(\<exists>act c' up'. (waterfall_steps rt options ! i) r c = Inr (act, c')
             \<and> store c' = Some up' \<and> fields_kept up up')
     \<or> ((waterfall_steps rt options ! i) r c = Inl TypeError \<and> truthy r
         \<and> (\<forall>s. r \<noteq> Str s))"
proof -
  from assms(2) have "i < 5" by (simp add: waterfall_steps_def)
  then consider "i = 0" | "i = 1" | "i = 2" | "i = 3" | "i = 4" by arith
  then show ?thesis
  proof cases
    case 1
    then show ?thesis
      using initializeStateStep_keeps [OF assms(1)] assms(1)
      by (simp add: waterfall_steps_def fields_kept_def)
  next
    case 2
    then show ?thesis
      using promptForNameStep_keeps [OF assms(1), of rt]
      by (auto simp add: waterfall_steps_def fields_kept_def)
  next
    case 3
    then show ?thesis
      using promptForCityStep_keeps [OF assms(1), of rt r] by (simp add: waterfall_steps_def)
  next
    case 4
    then show ?thesis
      using promptForPhoneStep_keeps [OF assms(1), of rt r] by (simp add: waterfall_steps_def)
  next
    case 5
    then show ?thesis
      using displayGreetingStep_keeps [OF assms(1), of rt r]
      by (simp add: waterfall_steps_def)
  qed
qed

text \<open>
  The city step, run with the reply \<open>"bob"\<close> on a profile that has the name \<open>"Al"\<close>,
  leaves the name as it is.
\<close>

theorem steps_keep_set_fields_witness:
  "2 < length (waterfall_steps example_runtime None)
   \<and> (waterfall_steps example_runtime None ! 2) (Str (ascii ''bob''))
       \<lparr> store = Some \<lparr> name = Str (ascii ''Al''), city = Undefined, phone = Undefined \<rparr>,
         sent = [] \<rparr>
     = Inr (Prompt CITY_PROMPT (city_question example_runtime (Str (ascii ''Al''))),
         \<lparr> store = Some \<lparr> name = Str (ascii ''Al''), city = Undefined, phone = Undefined \<rparr>,
           sent = [] \<rparr>)"
  using steps_keep_set_fields
    [of "\<lparr> store = Some \<lparr> name = Str (ascii ''Al''), city = Undefined, phone = Undefined \<rparr>,
           sent = [] \<rparr>"
        "\<lparr> name = Str (ascii ''Al''), city = Undefined, phone = Undefined \<rparr>"
        2 example_runtime None "Str (ascii ''bob'')"]
  by (simp add: waterfall_steps_def promptForCityStep_def ascii_def)

text \<open>
  The same holds of a whole run of the flow, since the steps are all that writes to the
  profile: whatever the replies are, a field that was set when the flow started has the
  same value when the flow waits or ends.
\<close>

lemma fields_kept_trans:
  "fields_kept a b \<Longrightarrow> fields_kept b c \<Longrightarrow> fields_kept a c"
  by (auto simp add: fields_kept_def)

lemma waterfall_step_keeps:
  assumes "f \<in> set (waterfall_steps rt options)"
    and "store c = Some up" and "f r c = Inr (act, c')"
  shows "\<exists>up'. store c' = Some up' \<and> fields_kept up up'"
proof -
  from assms(1) consider "f = (\<lambda>result. initializeStateStep options)"
    | "f = (\<lambda>result. promptForNameStep rt)" | "f = promptForCityStep rt"
    | "f = promptForPhoneStep rt" | "f = displayGreetingStep rt"
    by (auto simp add: waterfall_steps_def)
  then show ?thesis
  proof cases
    case 1
    then show ?thesis
      using initializeStateStep_keeps [OF assms(2), of options] assms(2,3)
      by (auto simp add: fields_kept_def)
  next
    case 2
    then show ?thesis
      using promptForNameStep_keeps [OF assms(2), of rt] assms(3)
      by (auto simp add: fields_kept_def)
  next
    case 3
    then show ?thesis using promptForCityStep_keeps [OF assms(2), of rt r] assms(3) by auto
  next
    case 4
    then show ?thesis using promptForPhoneStep_keeps [OF assms(2), of rt r] assms(3) by auto
  next
    case 5
    then show ?thesis using displayGreetingStep_keeps [OF assms(2), of rt r] assms(3) by auto
  qed
qed

lemma runSteps_keeps:
  assumes "set fs \<subseteq> set (waterfall_steps rt options)"
    and "store c = Some up" and "runSteps fs i r c = Inr (st, c')"
  shows "\<exists>up'. store c' = Some up' \<and> fields_kept up up'"
  using assms
proof (induction fs arbitrary: i r c up)
  case Nil
  then show ?case by (auto simp add: fields_kept_def)
next
  case (Cons f fs)
  from Cons.prems(3) obtain act c1 where f: "f r c = Inr (act, c1)"
    by (cases "f r c") auto
  from Cons.prems(1) have "f \<in> set (waterfall_steps rt options)" by simp
  from waterfall_step_keeps [OF this Cons.prems(2) f]
  obtain up1 where up1: "store c1 = Some up1" "fields_kept up up1" by blast
  show ?case
  proof (cases act)
    case (Prompt pid question)
    with Cons.prems(3) f have "c' = sendActivity question c1" by simp
    with up1 show ?thesis by (auto simp add: sendActivity_def)
  next
    case (Next r1)
    with Cons.prems(3) f have run: "runSteps fs (Suc i) r1 c1 = Inr (st, c')" by simp
    from Cons.prems(1) have "set fs \<subseteq> set (waterfall_steps rt options)" by simp
    from Cons.IH [OF this up1(1) run] up1(2) show ?thesis
      by (blast intro: fields_kept_trans)
  next
    case EndDialog
    with Cons.prems(3) f have "c' = c1" by simp
    with up1 show ?thesis by simp
  qed
qed

lemma validator_keeps_context:
  "validator rt pid v c = Inr (ok, c') \<Longrightarrow> store c' = store c"
  by (cases pid)
    (auto simp add: validateName_def validateCity_def validatePhone_def sendActivity_def
      split: jsval.splits if_splits)

lemma continueDialog_keeps:
  assumes "store c = Some up" and "continueDialog rt options st reply c = Inr (st', c')"
  shows "\<exists>up'. store c' = Some up' \<and> fields_kept up up'"
proof (cases st)
  case Ended
  with assms show ?thesis by (auto simp add: continueDialog_def fields_kept_def)
next
  case (Waiting pid k)
  with assms(2) obtain ok c1 where v: "validator rt pid reply c = Inr (ok, c1)"
    by (cases "validator rt pid reply c") (auto simp add: continueDialog_def)
  then have c1: "store c1 = Some up"
    using assms(1) validator_keeps_context by simp
  show ?thesis
  proof (cases ok)
    case True
    with Waiting v assms(2)
    have run: "runSteps (drop k (waterfall_steps rt options)) k reply c1 = Inr (st', c')"
      by (simp add: continueDialog_def)
    have "set (drop k (waterfall_steps rt options)) \<subseteq> set (waterfall_steps rt options)"
      by (rule set_drop_subset)
    from runSteps_keeps [OF this c1 run] show ?thesis .
  next
    case False
    with Waiting v assms(2) have "c' = c1" by (simp add: continueDialog_def)
    with c1 show ?thesis by (simp add: fields_kept_def)
  qed
qed

section \<open>Properties of the publish script\<close>

text \<open>
  Claim C4. For every response to the upload with a status code of 400 or more the files
  on disk are as before and \<open>callback\<close> is called with the response object; on an error
  of the request the files on disk are as before and \<open>callback\<close> is called with the
  error. For a status code from 200 up to, not including, 300 the handler does what the
  claim says, removing the archive and calling \<open>callback\<close> with \<open>null\<close>, only where the
  callback of \<open>fs.unlink\<close> is optional. Where it is required, the call
  \<open>fs.unlink(zipPath)\<close> throws: the archive stays on disk and \<open>callback\<close> is not called.
\<close>

theorem uploadZip_unlink_throws:
  "(200 \<le> statusCode resp \<and> statusCode resp < 300 \<longrightarrow>
      uploadZip callback_required zipPath (on_response resp) w = (Some TypeError, w)
      \<and> uploadZip callback_optional zipPath (on_response resp) w
          = (None, w\<lparr>files := files w - {zipPath}, calls := calls w @ [null]\<rparr>))
   \<and> (400 \<le> statusCode resp \<longrightarrow>
      uploadZip node zipPath (on_response resp) w
        = (None, w\<lparr>calls := calls w @ [Resp resp]\<rparr>))
   \<and> uploadZip node zipPath (on_error err) w = (None, w\<lparr>calls := calls w @ [Err err]\<rparr>)"
  by (simp add: uploadZip_def unlink_no_callback_def)

text \<open>
  A response with status 200 where the callback is required: the archive is still on
  disk and no call of \<open>callback\<close> was made. Then a response with status 404 and a failed
  request.
\<close>

theorem uploadZip_unlink_throws_witness:
  "uploadZip callback_required ''../mycheesebot.zip'' (on_response \<lparr> statusCode = 200 \<rparr>)
      \<lparr> files = {''../mycheesebot.zip''}, calls = ([] :: string callback_arg list) \<rparr>
     = (Some TypeError, \<lparr> files = {''../mycheesebot.zip''}, calls = [] \<rparr>)
   \<and> uploadZip callback_optional ''../mycheesebot.zip'' (on_response \<lparr> statusCode = 200 \<rparr>)
      \<lparr> files = {''../mycheesebot.zip''}, calls = ([] :: string callback_arg list) \<rparr>
     = (None, \<lparr> files = {}, calls = [null] \<rparr>)
   \<and> uploadZip callback_required ''../mycheesebot.zip'' (on_response \<lparr> statusCode = 404 \<rparr>)
      \<lparr> files = {''../mycheesebot.zip''}, calls = ([] :: string callback_arg list) \<rparr>
     = (None, \<lparr> files = {''../mycheesebot.zip''}, calls = [Resp \<lparr> statusCode = 404 \<rparr>] \<rparr>)
   \<and> uploadZip callback_required ''../mycheesebot.zip'' (on_error ''ECONNRESET'')
      \<lparr> files = {''../mycheesebot.zip''}, calls = [] \<rparr>
     = (None, \<lparr> files = {''../mycheesebot.zip''}, calls = [Err ''ECONNRESET''] \<rparr>)"
  using uploadZip_unlink_throws
    [of "\<lparr> statusCode = 200 \<rparr>" "''../mycheesebot.zip''"
        "\<lparr> files = {''../mycheesebot.zip''}, calls = [] \<rparr>" callback_required
        "''ECONNRESET''"]
    uploadZip_unlink_throws
    [of "\<lparr> statusCode = 404 \<rparr>" "''../mycheesebot.zip''"
        "\<lparr> files = {''../mycheesebot.zip''}, calls = [] \<rparr>" callback_required
        "''ECONNRESET''"]
  by simp

text \<open>
  Claim C9. For every response whose status code is from 300 up to, not including, 400,
  neither branch of the response handler runs, whichever Node.js release runs the
  script: nothing is thrown, \<open>callback\<close> is not called and the files on disk, the archive
  among them, are as before.
\<close>

theorem uploadZip_redirect_ignored:
  assumes "300 \<le> statusCode resp" and "statusCode resp < 400"
  shows "uploadZip node zipPath (on_response resp) w = (None, w)"
  using assms by (simp add: uploadZip_def)

theorem uploadZip_redirect_ignored_witness:
  "(300 :: int) \<le> statusCode \<lparr> statusCode = 302 \<rparr> \<and> statusCode \<lparr> statusCode = 302 \<rparr> < (400 :: int)
   \<and> uploadZip callback_required ''../mycheesebot.zip'' (on_response \<lparr> statusCode = 302 \<rparr>)
        \<lparr> files = {''../mycheesebot.zip''}, calls = ([] :: string callback_arg list) \<rparr>
      = (None, \<lparr> files = {''../mycheesebot.zip''}, calls = [] \<rparr>)"
  using uploadZip_redirect_ignored
    [of "\<lparr> statusCode = 302 \<rparr>" callback_required "''../mycheesebot.zip''"
        "\<lparr> files = {''../mycheesebot.zip''}, calls = ([] :: string callback_arg list) \<rparr>"]
  by simp

text \<open>
  Claim C8. The request that \<open>uploadZip\<close> issues is a PUT with basic-auth credentials,
  sent immediately. Its \<open>Content-Type\<close> header, however, is not \<open>application/zip\<close>: the
  value in the code is \<open>applicaton/zip\<close>, with the second \<open>i\<close> missing.
\<close>

theorem uploadZip_content_type_misspelt:
  "fst (uploadZip_request pw) = ''PUT''
   \<and> auth (snd (snd (uploadZip_request pw)))
       = \<lparr> username = userName, password = pw, sendImmediately = True \<rparr>
   \<and> map_of (headers (snd (snd (uploadZip_request pw)))) ''Content-Type''
       = Some ''applicaton/zip''
   \<and> map_of (headers (snd (snd (uploadZip_request pw)))) ''Content-Type''
       \<noteq> Some ''application/zip''"
  by (simp add: uploadZip_request_def)

end
